theory Spec2Isabelle
  imports Main "HOL-Library.Sublist"
begin

section \<open>VRF reconciliation: \<^verbatim>\<open>src/conf_mode/vrf.py\<close>\<close>

text \<open>
  The script reads the desired and the previously effective VRF configuration
  (\<^verbatim>\<open>get_config\<close>), checks it (\<^verbatim>\<open>verify\<close>) and drives the kernel
  (\<^verbatim>\<open>apply\<close>). The configuration store (\<^verbatim>\<open>vyos.config.Config\<close>) and
  the operating system (\<^verbatim>\<open>os.path.isdir\<close>, \<^verbatim>\<open>subprocess.check_call\<close>,
  \<^verbatim>\<open>open\<close>) are outside the script: they are parameters of the model, records of
  query functions. A Python \<^verbatim>\<open>str\<close> is a \<^typ>\<open>string\<close> whose characters are the
  code points below 256; a value that is \<^verbatim>\<open>str\<close> or \<^verbatim>\<open>None\<close> is a
  \<^typ>\<open>string option\<close>.
\<close>

subsection \<open>Python text primitives used by the script\<close>

text \<open>\<^verbatim>\<open>str(n)\<close> for an integer, as an f-string renders \<^verbatim>\<open>{bind_all}\<close>.\<close>

fun str_nat :: "nat \<Rightarrow> string" where
  "str_nat n = (if n < 10 then [char_of (48 + n)] else str_nat (n div 10) @ [char_of (48 + n mod 10)])"

definition str_int :: "int \<Rightarrow> string" where
  "str_int i = (if i < 0 then CHR ''-'' # str_nat (nat (- i)) else str_nat (nat i))"

text \<open>
  \<^verbatim>\<open>repr(s)\<close> for a string: single quotes unless the string holds a single quote and no
  double quote; the quote and the backslash are escaped, tab, newline and carriage return
  have their letters, every other unprintable character is \<^verbatim>\<open>\xhh\<close>.
\<close>

definition hex_digit :: "nat \<Rightarrow> char" where
  "hex_digit n = (if n < 10 then char_of (48 + n) else char_of (87 + n))"

definition py_isprintable :: "char \<Rightarrow> bool" where
  "py_isprintable c = (let n = (of_char c :: nat) in (32 \<le> n \<and> n < 127) \<or> (161 \<le> n \<and> n \<noteq> 173))"

definition repr_quote :: "string \<Rightarrow> char" where
  "repr_quote s = (if CHR 0x27 \<in> set s \<and> CHR 0x22 \<notin> set s then CHR 0x22 else CHR 0x27)"

definition repr_char :: "char \<Rightarrow> char \<Rightarrow> string" where
  "repr_char q c =
     (if c = q \<or> c = CHR 0x5C then [CHR 0x5C, c]
      else if c = CHR 0x09 then [CHR 0x5C, CHR ''t'']
      else if c = CHR 0x0A then [CHR 0x5C, CHR ''n'']
      else if c = CHR 0x0D then [CHR 0x5C, CHR ''r'']
      else if py_isprintable c then [c]
      else [CHR 0x5C, CHR ''x'', hex_digit (of_char c div 16), hex_digit (of_char c mod 16)])"

definition repr_str :: "string \<Rightarrow> string" where
  "repr_str s = (let q = repr_quote s in q # concat (map (repr_char q) s) @ [q])"

text \<open>\<^verbatim>\<open>', '.join(xs)\<close> and \<^verbatim>\<open>repr\<close> of a list of strings.\<close>

fun join_comma :: "string list \<Rightarrow> string" where
  "join_comma [] = []"
| "join_comma [x] = x"
| "join_comma (x # y # ys) = x @ '', '' @ join_comma (y # ys)"

definition repr_list :: "string list \<Rightarrow> string" where
  "repr_list xs = ''['' @ join_comma (map repr_str xs) @ '']''"

text \<open>
  \<^verbatim>\<open>command.split()\<close>: the words of a string, separated by runs of white space
  (for code points below 256: 9 to 13, 28 to 32, 133 and 160).
\<close>

definition py_isspace :: "char \<Rightarrow> bool" where
  "py_isspace c = (c \<in> set [CHR 0x09, CHR 0x0A, CHR 0x0B, CHR 0x0C, CHR 0x0D,
       CHR 0x1C, CHR 0x1D, CHR 0x1E, CHR 0x1F, CHR 0x20, CHR 0x85, CHR 0xA0])"

fun split_from :: "string \<Rightarrow> string \<Rightarrow> string list" where
  "split_from w [] = (if w = [] then [] else [rev w])"
| "split_from w (c # cs) =
     (if py_isspace c then (if w = [] then split_from [] cs else rev w # split_from [] cs)
      else split_from (c # w) cs)"

definition py_split :: "string \<Rightarrow> string list" where
  "py_split s = split_from [] s"

text \<open>An f-string field holding a value that is a string or \<^verbatim>\<open>None\<close>.\<close>

fun fmt :: "string option \<Rightarrow> string" where
  "fmt None = ''None''"
| "fmt (Some s) = s"

text \<open>Truth value of a string or \<^verbatim>\<open>None\<close>: \<^verbatim>\<open>None\<close> and \<^verbatim>\<open>''\<close> are false.\<close>

fun truthy :: "string option \<Rightarrow> bool" where
  "truthy None = False"
| "truthy (Some s) = (s \<noteq> [])"

subsection \<open>Data: the configuration dictionaries\<close>

text \<open>
  A removal candidate is the dictionary \<^verbatim>\<open>{'members': ..., 'name': ...}\<close>; a declared VRF
  has these two keys and \<^verbatim>\<open>description\<close>, \<^verbatim>\<open>table\<close>, \<^verbatim>\<open>table_mod\<close>.
\<close>

record vrf_entry =
  members :: "string list"
  name :: string

record vrf_inst = vrf_entry +
  description :: "string option"
  table :: "string option"
  table_mod :: bool

record vrf_config =
  bind_to_all :: int
  deleted :: bool
  vrf_add :: "vrf_inst list"
  vrf_existing :: "string list"
  vrf_remove :: "vrf_entry list"

definition default_config_data :: vrf_config where
  "default_config_data =
     \<lparr>bind_to_all = 0, deleted = False, vrf_add = [], vrf_existing = [], vrf_remove = []\<rparr>"

text \<open>
  \<^verbatim>\<open>str(d)\<close> of a removal candidate, which is what an f-string field renders for a
  dictionary: the keys in insertion order, \<^verbatim>\<open>members\<close> first.
\<close>

definition str_entry :: "vrf_entry \<Rightarrow> string" where
  "str_entry d = ''{'' @ repr_str ''members'' @ '': '' @ repr_list (members d) @ '', ''
       @ repr_str ''name'' @ '': '' @ repr_str (name d) @ ''}''"

datatype exn = ConfigError string | CalledProcessError string | OSError string | TypeError string

subsection \<open>The configuration store\<close>

text \<open>
  The queries of \<^verbatim>\<open>vyos.config.Config\<close> that the script uses, on full paths (the level
  set by \<^verbatim>\<open>set_level\<close> is prepended by the caller). \<^verbatim>\<open>get_config_dict\<close> is
  the tree interface type, interface name, attributes.
\<close>

type_synonym path = "string list"

record config =
  exists :: "path \<Rightarrow> bool"
  list_nodes :: "path \<Rightarrow> string list"
  list_effective_nodes :: "path \<Rightarrow> string list"
  return_value :: "path \<Rightarrow> string option"
  return_effective_value :: "path \<Rightarrow> string option"
  get_config_dict :: "string \<Rightarrow> (string \<times> (string \<times> (string \<times> string) list) list) list"

text \<open>
  Modelled from the spec: \<^verbatim>\<open>list_diff\<close> of \<^verbatim>\<open>vyos.configdict\<close> is not among the
  sources; the spec gives \<^verbatim>\<open>toRemove = previousNames - names(declared)\<close>, the
  entries of the first list that are not in the second, in their order.
\<close>

definition list_diff :: "string list \<Rightarrow> string list \<Rightarrow> string list" where
  "list_diff first second = filter (\<lambda>item. item \<notin> set second) first"

subsection \<open>\<^verbatim>\<open>interfaces_with_vrf\<close> and \<^verbatim>\<open>get_config\<close>\<close>

definition interfaces_with_vrf :: "config \<Rightarrow> string \<Rightarrow> string list" where
  "interfaces_with_vrf conf match =
     concat (map (\<lambda>(type, interfaces).
        concat (map (\<lambda>(nm, interface).
           (case map_of interface ''vrf'' of
              None \<Rightarrow> []
            | Some v \<Rightarrow> if v = match then [nm] else [])) interfaces))
        (get_config_dict conf ''interfaces''))"

text \<open>
  The body of the loop over the declared VRF names (lines 80 to 106). The level is
  \<^verbatim>\<open>['vrf', 'name', name]\<close> inside the loop; before it, when \<^verbatim>\<open>bind-to-all\<close>
  is looked up, no level has been set.
\<close>

definition read_vrf :: "config \<Rightarrow> string \<Rightarrow> vrf_inst" where
  "read_vrf conf nm =
     (let vrf_inst = \<lparr>members = [], name = nm, description = Some [CHR 0x00],
                      table = Some [], table_mod = False\<rparr>;
          level = [''vrf'', ''name'', nm];
          vrf_inst =
            (if exists conf (level @ [''table'']) then
               (let act_table = return_value conf (level @ [''table'']);
                    eff_table = return_effective_value conf (level @ [''table'']);
                    vrf_inst = vrf_inst\<lparr>table := act_table\<rparr>
                in if truthy eff_table \<and> eff_table \<noteq> act_table
                   then vrf_inst\<lparr>table_mod := True\<rparr> else vrf_inst)
             else vrf_inst);
          vrf_inst =
            (if exists conf (level @ [''description''])
             then vrf_inst\<lparr>description := return_value conf (level @ [''description''])\<rparr>
             else vrf_inst)
      in vrf_inst\<lparr>members := interfaces_with_vrf conf nm\<rparr>)"

text \<open>The body of the loop over the names to remove (lines 111 to 121).\<close>

definition read_remove :: "config \<Rightarrow> string \<Rightarrow> vrf_entry" where
  "read_remove conf nm = \<lparr>members = interfaces_with_vrf conf nm, name = nm\<rparr>"

definition get_config :: "config \<Rightarrow> vrf_config" where
  "get_config conf =
     (let vrf_config = default_config_data;
          cfg_base = [''vrf''];
          (vrf_config, remove_names) =
            (if \<not> exists conf cfg_base then
               (vrf_config, list_effective_nodes conf (cfg_base @ [''name'']))
             else
               (let vrf_config =
                      (if exists conf [''bind-to-all''] then vrf_config\<lparr>bind_to_all := 1\<rparr>
                       else vrf_config);
                    eff_vrf = list_effective_nodes conf (cfg_base @ [''name'']);
                    act_vrf = list_nodes conf (cfg_base @ [''name''])
                in (vrf_config\<lparr>vrf_add := vrf_add vrf_config
                        @ map (read_vrf conf) (list_nodes conf (cfg_base @ [''name'']))\<rparr>,
                    list_diff eff_vrf act_vrf)))
      in vrf_config\<lparr>vrf_remove := map (read_remove conf) remove_names\<rparr>)"

subsection \<open>\<^verbatim>\<open>verify\<close>\<close>

definition in_use_message :: "string \<Rightarrow> string" where
  "in_use_message nm = ''VRF '' @ [CHR 0x22] @ nm @ [CHR 0x22] @ '' can not be deleted as it has active members''"

definition table_mod_message :: string where
  "table_mod_message = ''VRF routing table id modification is not possible''"

fun verify_remove :: "vrf_entry list \<Rightarrow> exn + unit" where
  "verify_remove [] = Inr ()"
| "verify_remove (vrf # vrfs) =
     (if length (members vrf) > 0 then Inl (ConfigError (in_use_message (name vrf)))
      else verify_remove vrfs)"

fun verify_add :: "vrf_inst list \<Rightarrow> exn + unit" where
  "verify_add [] = Inr ()"
| "verify_add (vrf # vrfs) =
     (if table_mod vrf then Inl (ConfigError table_mod_message) else verify_add vrfs)"

definition verify :: "vrf_config \<Rightarrow> exn + unit" where
  "verify vrf_config =
     (case verify_remove (vrf_remove vrf_config) of
        Inl e \<Rightarrow> Inl e
      | Inr _ \<Rightarrow> verify_add (vrf_add vrf_config))"

definition generate :: "vrf_config \<Rightarrow> unit" where
  "generate vrf_config = ()"

subsection \<open>The operating system\<close>

text \<open>
  What the script does to the system: a command run by \<^verbatim>\<open>check_call\<close> (its argument
  vector), a file opened for writing, and data written to it. The system itself is a
  parameter: a state \<^typ>\<open>'w\<close>, the probe \<^verbatim>\<open>os.path.isdir\<close>, and for each
  operation the exception it raises, if any, with the state it leaves.
\<close>

datatype effect = Exec "string list" | OpenW string | WriteData string string

record 'w os =
  isdir :: "'w \<Rightarrow> string \<Rightarrow> bool"
  check_call :: "string list \<Rightarrow> 'w \<Rightarrow> exn option \<times> 'w"
  open_w :: "string \<Rightarrow> 'w \<Rightarrow> exn option \<times> 'w"
  write_close :: "string \<Rightarrow> string \<Rightarrow> 'w \<Rightarrow> exn option \<times> 'w"

text \<open>
  A statement of the script takes the system state and gives the exception raised or
  \<^verbatim>\<open>None\<close>, the new state, and the effects it issued, in order. An exception ends
  the sequence; what was done before stays done.
\<close>

type_synonym 'w action = "'w \<Rightarrow> (exn + unit) \<times> 'w \<times> effect list"

definition skip :: "'w action" where
  "skip k = (Inr (), k, [])"

definition and_then :: "'w action \<Rightarrow> 'w action \<Rightarrow> 'w action" where
  "and_then f g k =
     (case f k of
        (Inl e, k1, t1) \<Rightarrow> (Inl e, k1, t1)
      | (Inr _, k1, t1) \<Rightarrow> (case g k1 of (r, k2, t2) \<Rightarrow> (r, k2, t1 @ t2)))"

primrec for_each :: "('a \<Rightarrow> 'w action) \<Rightarrow> 'a list \<Rightarrow> 'w action" where
  "for_each body [] = skip"
| "for_each body (x # xs) = and_then (body x) (for_each body xs)"

definition trace :: "(exn + unit) \<times> 'w \<times> effect list \<Rightarrow> effect list" where
  "trace r = snd (snd r)"

definition outcome :: "(exn + unit) \<times> 'w \<times> effect list \<Rightarrow> exn + unit" where
  "outcome r = fst r"

definition world :: "(exn + unit) \<times> 'w \<times> effect list \<Rightarrow> 'w" where
  "world r = fst (snd r)"

text \<open>\<^verbatim>\<open>_cmd\<close>: a \<^verbatim>\<open>CalledProcessError\<close> becomes a \<^verbatim>\<open>ConfigError\<close>, any other
  exception passes.\<close>

definition cmd :: "'w os \<Rightarrow> string \<Rightarrow> 'w action" where
  "cmd os command k =
     (let argv = py_split command in
      case check_call os argv k of
        (None, k1) \<Rightarrow> (Inr (), k1, [Exec argv])
      | (Some (CalledProcessError e), k1) \<Rightarrow>
          (Inl (ConfigError (''Error operationg on VRF: '' @ e)), k1, [Exec argv])
      | (Some x, k1) \<Rightarrow> (Inl x, k1, [Exec argv]))"

text \<open>\<^verbatim>\<open>with open(path, 'w') as f: f.write(data)\<close>; writing \<^verbatim>\<open>None\<close> is a
  \<^verbatim>\<open>TypeError\<close>, raised once the file is open.\<close>

definition write_file :: "'w os \<Rightarrow> string \<Rightarrow> string option \<Rightarrow> 'w action" where
  "write_file os path data k =
     (case open_w os path k of
        (Some x, k1) \<Rightarrow> (Inl x, k1, [OpenW path])
      | (None, k1) \<Rightarrow>
          (case data of
             None \<Rightarrow> (Inl (TypeError ''write() argument must be str, not None''), k1, [OpenW path])
           | Some d \<Rightarrow>
               (case write_close os path d k1 of
                  (Some x, k2) \<Rightarrow> (Inl x, k2, [OpenW path, WriteData path d])
                | (None, k2) \<Rightarrow> (Inr (), k2, [OpenW path, WriteData path d]))))"

subsection \<open>\<^verbatim>\<open>apply\<close>\<close>

text \<open>The body of the loop over \<^verbatim>\<open>vrf_remove\<close> (lines 154 to 156): the loop variable
  is an entry of the list, a dictionary, and the f-strings render it as such.\<close>

definition apply_remove :: "'w os \<Rightarrow> vrf_entry \<Rightarrow> 'w action" where
  "apply_remove os vrf_name k =
     (if isdir os k (''/sys/class/net/'' @ str_entry vrf_name)
      then cmd os (''ip link delete dev '' @ str_entry vrf_name) k
      else skip k)"

text \<open>The body of the loop over \<^verbatim>\<open>vrf_add\<close> (lines 158 to 172).\<close>

definition create_vrf :: "'w os \<Rightarrow> string \<Rightarrow> string \<Rightarrow> 'w action" where
  "create_vrf os nm tbl =
     and_then (cmd os (''ip link add '' @ nm @ '' type vrf table '' @ tbl))
    (and_then (cmd os (''ip link set dev '' @ nm @ '' up''))
    (and_then (cmd os (''ip -4 rule add oif '' @ nm @ '' lookup '' @ tbl))
    (and_then (cmd os (''ip -4 rule add iif '' @ nm @ '' lookup '' @ tbl))
    (and_then (cmd os (''ip -6 rule add oif '' @ nm @ '' lookup '' @ tbl))
              (cmd os (''ip -6 rule add iif '' @ nm @ '' lookup '' @ tbl))))))"

definition apply_add :: "'w os \<Rightarrow> vrf_inst \<Rightarrow> 'w action" where
  "apply_add os vrf =
     (let nm = name vrf; tbl = fmt (table vrf) in
      and_then (\<lambda>k. if \<not> isdir os k (''/sys/class/net/'' @ nm)
                    then create_vrf os nm tbl k else skip k)
               (write_file os (''/sys/class/net/'' @ nm @ ''/ifalias'') (description vrf)))"

definition apply_cfg :: "'w os \<Rightarrow> vrf_config \<Rightarrow> 'w action" where
  "apply_cfg os vrf_config =
     (let bind_all = str_int (bind_to_all vrf_config) in
      and_then (cmd os (''sysctl -wq net.ipv4.tcp_l3mdev_accept='' @ bind_all))
     (and_then (cmd os (''sysctl -wq net.ipv4.udp_l3mdev_accept='' @ bind_all))
     (and_then (for_each (apply_remove os) (vrf_remove vrf_config))
               (for_each (apply_add os) (vrf_add vrf_config)))))"

subsection \<open>The main program\<close>

text \<open>How the process ends: it falls off the end, it prints a \<^verbatim>\<open>ConfigError\<close> and
  exits with status 1, or another exception reaches the top.\<close>

datatype ending = Finished | Exit1 string | Uncaught exn

definition main :: "config \<Rightarrow> 'w os \<Rightarrow> 'w \<Rightarrow> ending \<times> 'w \<times> effect list" where
  "main conf os k =
     (let c = get_config conf in
      case verify c of
        Inl (ConfigError e) \<Rightarrow> (Exit1 e, k, [])
      | Inl x \<Rightarrow> (Uncaught x, k, [])
      | Inr _ \<Rightarrow>
          (let u = generate c in
           case apply_cfg os c k of
             (Inl (ConfigError e), k1, t) \<Rightarrow> (Exit1 e, k1, t)
           | (Inl x, k1, t) \<Rightarrow> (Uncaught x, k1, t)
           | (Inr _, k1, t) \<Rightarrow> (Finished, k1, t)))"

subsection \<open>A small simulated kernel, for concrete runs\<close>

text \<open>
  The state is the list of directories that exist. Creating a VRF device adds its
  directory under \<^verbatim>\<open>/sys/class/net\<close>, deleting a device removes it and fails when
  there is none; every other command and every write succeeds.
\<close>

definition sim_check_call :: "string list \<Rightarrow> string list \<Rightarrow> exn option \<times> string list" where
  "sim_check_call argv k =
     (if length argv = 8 \<and> take 3 argv = [''ip'', ''link'', ''add''] then
        (None, (''/sys/class/net/'' @ argv ! 3) # k)
      else if length argv = 5 \<and> take 4 argv = [''ip'', ''link'', ''delete'', ''dev''] then
        (if (''/sys/class/net/'' @ argv ! 4) \<in> set k
         then (None, removeAll (''/sys/class/net/'' @ argv ! 4) k)
         else (Some (CalledProcessError ''Cannot find device''), k))
      else (None, k))"

definition sim_os :: "string list os" where
  "sim_os = \<lparr>isdir = (\<lambda>k p. p \<in> set k), check_call = sim_check_call,
             open_w = (\<lambda>p k. (None, k)), write_close = (\<lambda>p d k. (None, k))\<rparr>"

text \<open>A store given by its answers, for concrete configurations.\<close>

definition store :: "path list \<Rightarrow> (path \<times> string list) list \<Rightarrow> (path \<times> string list) list
    \<Rightarrow> (path \<times> string) list \<Rightarrow> (path \<times> string) list
    \<Rightarrow> (string \<times> (string \<times> (string \<times> string) list) list) list \<Rightarrow> config" where
  "store present nodes eff_nodes vals eff_vals ifaces =
     \<lparr>exists = (\<lambda>p. p \<in> set present),
      list_nodes = (\<lambda>p. case map_of nodes p of None \<Rightarrow> [] | Some ns \<Rightarrow> ns),
      list_effective_nodes = (\<lambda>p. case map_of eff_nodes p of None \<Rightarrow> [] | Some ns \<Rightarrow> ns),
      return_value = map_of vals,
      return_effective_value = map_of eff_vals,
      get_config_dict = (\<lambda>s. if s = ''interfaces'' then ifaces else [])\<rparr>"

subsection \<open>Phases of the effects\<close>


definition emits :: "(effect \<Rightarrow> bool) \<Rightarrow> 'w action \<Rightarrow> bool" where
  "emits P f = (\<forall>k. \<forall>e\<in>set (trace (f k)). P e)"

subsection \<open>The effects of a run in which no step fails\<close>




subsection \<open>Concrete configurations\<close>

text \<open>
  Scenario A: RED with table 100 is declared, nothing was effective. Scenario B: the
  \<^verbatim>\<open>vrf\<close> node is gone, BLUE was effective and \<^verbatim>\<open>eth0\<close> is still a member.
  Scenario C: GREEN is declared with table 200, its effective table is 100. Scenario D:
  the \<^verbatim>\<open>vrf\<close> node is gone, BLUE was effective and has no members. The store
  \<open>table_dropped\<close> declares RED without a table while its effective table is 100.
\<close>

definition scenario_A :: config where
  "scenario_A = store [[''vrf''], [''vrf'', ''name'', ''RED'', ''table'']]
     [([''vrf'', ''name''], [''RED''])] []
     [([''vrf'', ''name'', ''RED'', ''table''], ''100'')] [] []"

definition scenario_B :: config where
  "scenario_B = store [] [] [([''vrf'', ''name''], [''BLUE''])] [] []
     [(''ethernet'', [(''eth0'', [(''vrf'', ''BLUE'')])])]"

definition scenario_C :: config where
  "scenario_C = store [[''vrf''], [''vrf'', ''name'', ''GREEN'', ''table'']]
     [([''vrf'', ''name''], [''GREEN''])] [([''vrf'', ''name''], [''GREEN''])]
     [([''vrf'', ''name'', ''GREEN'', ''table''], ''200'')]
     [([''vrf'', ''name'', ''GREEN'', ''table''], ''100'')] []"

definition scenario_D :: config where
  "scenario_D = store [] [] [([''vrf'', ''name''], [''BLUE''])] [] [] []"

definition table_dropped :: config where
  "table_dropped = store [[''vrf'']]
     [([''vrf'', ''name''], [''RED''])] [([''vrf'', ''name''], [''RED''])]
     [] [([''vrf'', ''name'', ''RED'', ''table''], ''100'')] []"

text \<open>RED stays as it is while the effective BLUE is no longer declared.\<close>

definition blue_dropped :: config where
  "blue_dropped = store [[''vrf''], [''vrf'', ''name'', ''RED'', ''table'']]
     [([''vrf'', ''name''], [''RED''])] [([''vrf'', ''name''], [''RED'', ''BLUE''])]
     [([''vrf'', ''name'', ''RED'', ''table''], ''100'')]
     [([''vrf'', ''name'', ''RED'', ''table''], ''100'')] []"


section \<open>Properties\<close>

subsection \<open>Traces of the statements\<close>

lemma trace_skip [simp]: "trace (skip k) = []"
  by (simp add: trace_def skip_def)

lemma trace_and_then:
  "trace (and_then f g k) =
     trace (f k) @ (case outcome (f k) of Inl e \<Rightarrow> [] | Inr u \<Rightarrow> trace (g (world (f k))))"
  by (simp add: trace_def and_then_def outcome_def world_def split: prod.splits sum.splits)

lemma trace_cmd [simp]: "trace (cmd os command k) = [Exec (py_split command)]"
  by (simp add: cmd_def trace_def Let_def split: prod.splits option.splits exn.splits)

lemma emits_skip: "emits P skip"
  by (simp add: emits_def)

lemma emits_cmd: "P (Exec (py_split command)) \<Longrightarrow> emits P (cmd os command)"
  by (simp add: emits_def)

lemma emits_and_then: "emits P f \<Longrightarrow> emits P g \<Longrightarrow> emits P (and_then f g)"
  by (auto simp: emits_def trace_and_then split: sum.splits)


lemma emits_if: "emits P f \<Longrightarrow> emits P g \<Longrightarrow> emits P (\<lambda>k. if c k then f k else g k)"
  by (simp add: emits_def)




lemma split_add: "py_split (''ip link add '' @ x) = ''ip'' # ''link'' # ''add'' # py_split x"
  by (simp add: py_split_def py_isspace_def)









lemma emits_weaken: "emits P f \<Longrightarrow> (\<And>e. P e \<Longrightarrow> Q e) \<Longrightarrow> emits Q f"
  by (auto simp: emits_def)

subsection \<open>Sequences and loops\<close>

lemma outcome_and_then:
  "outcome (and_then f g k) = Inr () \<longleftrightarrow>
     outcome (f k) = Inr () \<and> outcome (g (world (f k))) = Inr ()"
  by (auto simp: and_then_def outcome_def world_def split: prod.splits sum.splits)

lemma world_skip [simp]: "world (skip k) = k"
  by (simp add: world_def skip_def)

lemma outcome_skip [simp]: "outcome (skip k) = Inr ()"
  by (simp add: outcome_def skip_def)


lemma trace_and_then_ok:
  "outcome (f k) = Inr () \<Longrightarrow> trace (and_then f g k) = trace (f k) @ trace (g (world (f k)))"
  by (simp add: trace_and_then)




lemma and_then_assoc: "and_then (and_then f g) h = and_then f (and_then g h)"
  by (rule ext) (simp add: and_then_def split: prod.splits sum.splits)

lemma and_then_skip_left: "and_then skip g = g"
  by (rule ext) (simp add: and_then_def skip_def split: prod.splits)

lemma for_each_append:
  "for_each body (xs @ ys) = and_then (for_each body xs) (for_each body ys)"
  by (induction xs) (simp_all add: and_then_skip_left and_then_assoc)

lemma apply_cfg_append:
  "apply_cfg os (c\<lparr>vrf_add := pre @ rest\<rparr>)
     = and_then (apply_cfg os (c\<lparr>vrf_add := pre\<rparr>)) (for_each (apply_add os) rest)"
  by (simp add: apply_cfg_def Let_def for_each_append and_then_assoc)

lemma apply_cfg_reaches:
  assumes "vrf_add c = pre @ v # post"
    and "outcome (apply_cfg os (c\<lparr>vrf_add := pre\<rparr>) k) = Inr ()"
  shows "trace (apply_cfg os c k) =
     trace (apply_cfg os (c\<lparr>vrf_add := pre\<rparr>) k)
     @ trace (apply_add os v (world (apply_cfg os (c\<lparr>vrf_add := pre\<rparr>) k)))
     @ (case outcome (apply_add os v (world (apply_cfg os (c\<lparr>vrf_add := pre\<rparr>) k))) of
          Inl e \<Rightarrow> []
        | Inr u \<Rightarrow> trace (for_each (apply_add os) post
             (world (apply_add os v (world (apply_cfg os (c\<lparr>vrf_add := pre\<rparr>) k))))))"
proof -
  have "c = c\<lparr>vrf_add := pre @ (v # post)\<rparr>" using assms(1) by simp
  then have "apply_cfg os c = and_then (apply_cfg os (c\<lparr>vrf_add := pre\<rparr>)) (for_each (apply_add os) (v # post))"
    using apply_cfg_append[where os = os and c = c and pre = pre and rest = "v # post"] by simp
  then show ?thesis using assms(2) by (simp add: trace_and_then_ok trace_and_then)
qed

lemma main_runs_apply:
  "verify (get_config conf) = Inr () \<Longrightarrow>
   snd (snd (main conf os k)) = trace (apply_cfg os (get_config conf) k)"
  by (auto simp: main_def Let_def trace_def split: prod.splits sum.splits exn.splits)




lemma for_each_member:
  "outcome (for_each body xs k) = Inr () \<Longrightarrow> x \<in> set xs \<Longrightarrow>
   \<exists>k'. outcome (body x k') = Inr () \<and> set (trace (body x k')) \<subseteq> set (trace (for_each body xs k))"
proof (induction xs arbitrary: k)
  case Nil
  then show ?case by simp
next
  case (Cons y ys)
  from Cons.prems(1) have o1: "outcome (body y k) = Inr ()"
    and o2: "outcome (for_each body ys (world (body y k))) = Inr ()"
    by (simp_all add: outcome_and_then)
  have t: "trace (for_each body (y # ys) k) = trace (body y k) @ trace (for_each body ys (world (body y k)))"
    using o1 by (simp add: trace_and_then_ok)
  show ?case
  proof (cases "x = y")
    case True
    with o1 t show ?thesis by auto
  next
    case False
    with Cons.prems(2) have "x \<in> set ys" by simp
    from Cons.IH[OF o2 this] obtain k' where "outcome (body x k') = Inr ()"
      and "set (trace (body x k')) \<subseteq> set (trace (for_each body ys (world (body y k))))"
      by blast
    with t show ?thesis by auto
  qed
qed

lemma apply_cfg_member:
  assumes "outcome (apply_cfg os c k) = Inr ()" and "v \<in> set (vrf_add c)"
  shows "\<exists>k'. outcome (apply_add os v k') = Inr ()
     \<and> set (trace (apply_add os v k')) \<subseteq> set (trace (apply_cfg os c k))"
proof -
  let ?c1 = "''sysctl -wq net.ipv4.tcp_l3mdev_accept='' @ str_int (bind_to_all c)"
  let ?c2 = "''sysctl -wq net.ipv4.udp_l3mdev_accept='' @ str_int (bind_to_all c)"
  let ?rm = "for_each (apply_remove os) (vrf_remove c)"
  let ?ad = "for_each (apply_add os) (vrf_add c)"
  let ?k2 = "world (cmd os ?c2 (world (cmd os ?c1 k)))"
  have eq: "apply_cfg os c = and_then (cmd os ?c1) (and_then (cmd os ?c2) (and_then ?rm ?ad))"
    by (simp add: apply_cfg_def Let_def)
  from assms(1) have o1: "outcome (cmd os ?c1 k) = Inr ()"
    and o2: "outcome (cmd os ?c2 (world (cmd os ?c1 k))) = Inr ()"
    and o3: "outcome (?rm ?k2) = Inr ()"
    and o4: "outcome (?ad (world (?rm ?k2))) = Inr ()"
    unfolding eq by (simp_all add: outcome_and_then)
  from for_each_member[OF o4 assms(2)] obtain k' where k': "outcome (apply_add os v k') = Inr ()"
    and s: "set (trace (apply_add os v k')) \<subseteq> set (trace (?ad (world (?rm ?k2))))"
    by blast
  have "set (trace (?ad (world (?rm ?k2)))) \<subseteq> set (trace (apply_cfg os c k))"
    unfolding eq using o1 o2 o3 by (auto simp: trace_and_then_ok)
  with k' s show ?thesis by blast
qed

subsection \<open>Validation\<close>

lemma verify_remove_ok: "verify_remove vs = Inr () \<longleftrightarrow> (\<forall>v\<in>set vs. members v = [])"
  by (induction vs) auto

lemma verify_remove_err:
  "\<exists>v\<in>set vs. members v \<noteq> [] \<Longrightarrow>
   \<exists>v\<in>set vs. members v \<noteq> [] \<and> verify_remove vs = Inl (ConfigError (in_use_message (name v)))"
  by (induction vs) auto

lemma verify_add_result: "verify_add vs = (if \<exists>v\<in>set vs. table_mod v then Inl (ConfigError table_mod_message) else Inr ())"
  by (induction vs) auto

lemma in_use_not_table_mod: "in_use_message nm \<noteq> table_mod_message"
  by (simp add: in_use_message_def table_mod_message_def)

text \<open>
  C2. Validation raises the error that names a VRF exactly when some entry of
  \<^verbatim>\<open>vrf_remove\<close> has members, and the VRF named is such an entry. Validation is a
  function of the configuration alone, and when it raises, the main program ends with
  that message, the system as it was and no effect issued: \<^verbatim>\<open>apply\<close> is not reached.
\<close>

theorem verify_in_use:
  "((\<exists>nm. verify c = Inl (ConfigError (in_use_message nm))) \<longleftrightarrow> (\<exists>v\<in>set (vrf_remove c). members v \<noteq> []))
   \<and> ((\<exists>v\<in>set (vrf_remove c). members v \<noteq> []) \<longrightarrow>
        (\<exists>v\<in>set (vrf_remove c). members v \<noteq> [] \<and> verify c = Inl (ConfigError (in_use_message (name v)))))
   \<and> ((\<exists>v\<in>set (vrf_remove (get_config conf)). members v \<noteq> []) \<longrightarrow>
        (\<exists>v\<in>set (vrf_remove (get_config conf)). main conf os k = (Exit1 (in_use_message (name v)), k, [])))"
proof (intro conjI impI)
  show "(\<exists>nm. verify c = Inl (ConfigError (in_use_message nm))) \<longleftrightarrow> (\<exists>v\<in>set (vrf_remove c). members v \<noteq> [])"
  proof
    assume "\<exists>nm. verify c = Inl (ConfigError (in_use_message nm))"
    then obtain nm where e: "verify c = Inl (ConfigError (in_use_message nm))" ..
    show "\<exists>v\<in>set (vrf_remove c). members v \<noteq> []"
    proof (rule ccontr)
      assume "\<not> (\<exists>v\<in>set (vrf_remove c). members v \<noteq> [])"
      then have "verify_remove (vrf_remove c) = Inr ()" by (simp add: verify_remove_ok)
      with e show False
        using in_use_not_table_mod[of nm]
        by (simp add: verify_def verify_add_result split: if_splits)
    qed
  next
    assume "\<exists>v\<in>set (vrf_remove c). members v \<noteq> []"
    from verify_remove_err[OF this] show "\<exists>nm. verify c = Inl (ConfigError (in_use_message nm))"
      by (auto simp: verify_def)
  qed
next
  assume "\<exists>v\<in>set (vrf_remove c). members v \<noteq> []"
  from verify_remove_err[OF this]
  show "\<exists>v\<in>set (vrf_remove c). members v \<noteq> [] \<and> verify c = Inl (ConfigError (in_use_message (name v)))"
    by (auto simp: verify_def)
next
  assume "\<exists>v\<in>set (vrf_remove (get_config conf)). members v \<noteq> []"
  from verify_remove_err[OF this]
  show "\<exists>v\<in>set (vrf_remove (get_config conf)). main conf os k = (Exit1 (in_use_message (name v)), k, [])"
    by (auto simp: verify_def main_def Let_def)
qed

theorem verify_in_use_witness:
  "(\<exists>v\<in>set (vrf_remove (get_config scenario_B)). members v \<noteq> [])
   \<and> verify (get_config scenario_B) = Inl (ConfigError (in_use_message ''BLUE''))
   \<and> main scenario_B sim_os [''/sys/class/net/BLUE'']
       = (Exit1 (in_use_message ''BLUE''), [''/sys/class/net/BLUE''], [])"
proof -
  have c: "get_config scenario_B = \<lparr>bind_to_all = 0, deleted = False, vrf_add = [], vrf_existing = [],
      vrf_remove = [\<lparr>members = [''eth0''], name = ''BLUE''\<rparr>]\<rparr>"
    by code_simp
  have h: "\<exists>v\<in>set (vrf_remove (get_config scenario_B)). members v \<noteq> []"
    by (simp add: c)
  show ?thesis
    using h verify_in_use[of "get_config scenario_B" scenario_B sim_os "[''/sys/class/net/BLUE'']"]
    by (simp add: c)
qed

subsection \<open>Removals\<close>

text \<open>
  The text that \<^verbatim>\<open>apply\<close> takes for the name of a removal candidate always holds
  a space, so on a system where no directory has a space in its path the removal step
  runs no command.
\<close>

lemma str_entry_space: "CHR '' '' \<in> set (str_entry d)"
  by (simp add: str_entry_def)

lemma apply_remove_skips:
  assumes "\<And>p. isdir os k p \<Longrightarrow> CHR '' '' \<notin> set p"
  shows "apply_remove os d k = skip k"
proof -
  have "CHR '' '' \<in> set (''/sys/class/net/'' @ str_entry d)"
    using str_entry_space[of d] by simp
  with assms have "\<not> isdir os k (''/sys/class/net/'' @ str_entry d)" by blast
  then show ?thesis by (simp add: apply_remove_def)
qed

text \<open>
  C1. Scenario D on a system where the device BLUE exists: the plan removes BLUE, but
  the directory \<^verbatim>\<open>apply\<close> probes is named after the whole dictionary, so no
  \<^verbatim>\<open>ip link delete\<close> is run and the device is still there afterwards.
\<close>

theorem apply_scenario_D_keeps_device:
  "vrf_remove (get_config scenario_D) = [\<lparr>members = [], name = ''BLUE''\<rparr>]
   \<and> str_entry \<lparr>members = [], name = ''BLUE''\<rparr>
       = ''{'' @ [CHR 0x27] @ ''members'' @ [CHR 0x27] @ '': [], '' @ [CHR 0x27] @ ''name''
           @ [CHR 0x27] @ '': '' @ [CHR 0x27] @ ''BLUE'' @ [CHR 0x27] @ ''}''
   \<and> apply_cfg sim_os (get_config scenario_D) [''/sys/class/net/BLUE'']
       = (Inr (), [''/sys/class/net/BLUE''],
          [Exec [''sysctl'', ''-wq'', ''net.ipv4.tcp_l3mdev_accept=0''],
           Exec [''sysctl'', ''-wq'', ''net.ipv4.udp_l3mdev_accept=0'']])"
  by code_simp

subsection \<open>What \<^verbatim>\<open>get_config\<close> returns\<close>

lemma name_read_vrf: "name (read_vrf conf nm) = nm"
  by (simp add: read_vrf_def Let_def)

lemma vrf_add_get_config:
  "vrf_add (get_config conf) =
     (if exists conf [''vrf''] then map (read_vrf conf) (list_nodes conf [''vrf'', ''name'']) else [])"
  by (simp add: get_config_def default_config_data_def Let_def)

lemma vrf_remove_get_config:
  "vrf_remove (get_config conf) = map (read_remove conf)
     (if exists conf [''vrf'']
      then list_diff (list_effective_nodes conf [''vrf'', ''name'']) (list_nodes conf [''vrf'', ''name''])
      else list_effective_nodes conf [''vrf'', ''name''])"
  by (simp add: get_config_def default_config_data_def Let_def)

lemma bind_to_all_get_config:
  "bind_to_all (get_config conf) = (if exists conf [''vrf''] \<and> exists conf [''bind-to-all''] then 1 else 0)"
  by (simp add: get_config_def default_config_data_def Let_def)

lemma in_vrf_add: "v \<in> set (vrf_add (get_config conf)) \<Longrightarrow> v = read_vrf conf (name v)"
  by (auto simp: vrf_add_get_config name_read_vrf split: if_splits)

lemma name_read_remove: "name (read_remove conf nm) = nm"
  by (simp add: read_remove_def)

text \<open>
  C3. Scenario C: GREEN is declared with table 200 and its effective table is 100.
  Validation fails, and the message is the fixed text of line 137, in which the name
  GREEN does not occur.
\<close>

theorem verify_scenario_C_message:
  "vrf_add (get_config scenario_C) =
     [\<lparr>members = [], name = ''GREEN'', description = Some [CHR 0x00], table = Some ''200'',
       table_mod = True\<rparr>]
   \<and> verify (get_config scenario_C) = Inl (ConfigError ''VRF routing table id modification is not possible'')
   \<and> \<not> sublist ''GREEN'' ''VRF routing table id modification is not possible''"
  by code_simp

text \<open>
  C4. For every declared VRF the marker \<^verbatim>\<open>table_mod\<close> is set exactly when the
  \<^verbatim>\<open>table\<close> attribute is configured now, a previously effective table ID exists and
  is not empty, and it differs from the table ID declared now.
\<close>

theorem table_mod_iff:
  "v \<in> set (vrf_add (get_config conf)) \<Longrightarrow>
   table_mod v \<longleftrightarrow>
     exists conf [''vrf'', ''name'', name v, ''table'']
     \<and> truthy (return_effective_value conf [''vrf'', ''name'', name v, ''table''])
     \<and> return_effective_value conf [''vrf'', ''name'', name v, ''table''] \<noteq> table v"
proof -
  assume "v \<in> set (vrf_add (get_config conf))"
  then have v: "v = read_vrf conf (name v)" by (rule in_vrf_add)
  have "table_mod (read_vrf conf nm) \<longleftrightarrow>
     exists conf [''vrf'', ''name'', nm, ''table'']
     \<and> truthy (return_effective_value conf [''vrf'', ''name'', nm, ''table''])
     \<and> return_effective_value conf [''vrf'', ''name'', nm, ''table''] \<noteq> table (read_vrf conf nm)" for nm
    by (simp add: read_vrf_def Let_def)
  from this[of "name v"] v show ?thesis by simp
qed

theorem table_mod_iff_witness:
  "hd (vrf_add (get_config scenario_C)) \<in> set (vrf_add (get_config scenario_C))
   \<and> table_mod (hd (vrf_add (get_config scenario_C)))
   \<and> exists scenario_C [''vrf'', ''name'', ''GREEN'', ''table'']
   \<and> return_effective_value scenario_C [''vrf'', ''name'', ''GREEN'', ''table''] = Some ''100''
   \<and> table (hd (vrf_add (get_config scenario_C))) = Some ''200''"
proof -
  have c: "vrf_add (get_config scenario_C) =
     [\<lparr>members = [], name = ''GREEN'', description = Some [CHR 0x00], table = Some ''200'',
       table_mod = True\<rparr>]"
    by code_simp
  have h: "hd (vrf_add (get_config scenario_C)) \<in> set (vrf_add (get_config scenario_C))"
    by (simp add: c)
  have e: "exists scenario_C [''vrf'', ''name'', ''GREEN'', ''table'']"
    "return_effective_value scenario_C [''vrf'', ''name'', ''GREEN'', ''table''] = Some ''100''"
    by code_simp+
  show ?thesis
    using h e table_mod_iff[OF h] by (simp add: c)
qed

text \<open>
  Without the first condition the equivalence fails: RED is declared without a table,
  its effective table is 100, which is not empty and differs from the empty table of the
  entry, and the marker is not set.
\<close>

theorem table_mod_counterexample:
  "\<not> (table_mod (hd (vrf_add (get_config table_dropped))) \<longleftrightarrow>
        truthy (return_effective_value table_dropped [''vrf'', ''name'', ''RED'', ''table''])
        \<and> return_effective_value table_dropped [''vrf'', ''name'', ''RED'', ''table'']
            \<noteq> table (hd (vrf_add (get_config table_dropped))))"
  by code_simp

text \<open>
  C5. In the configuration that \<^verbatim>\<open>get_config\<close> returns, whether the \<^verbatim>\<open>vrf\<close>
  node exists or not, no name is both in \<^verbatim>\<open>vrf_add\<close> and in \<^verbatim>\<open>vrf_remove\<close>.
\<close>

theorem add_remove_disjoint:
  "set (map name (vrf_add (get_config conf))) \<inter> set (map name (vrf_remove (get_config conf))) = {}"
proof (cases "exists conf [''vrf'']")
  case False
  then show ?thesis by (simp add: vrf_add_get_config)
next
  case True
  have a: "map name (vrf_add (get_config conf)) = list_nodes conf [''vrf'', ''name'']"
    using True by (simp add: vrf_add_get_config name_read_vrf comp_def)
  have r: "map name (vrf_remove (get_config conf))
      = list_diff (list_effective_nodes conf [''vrf'', ''name'']) (list_nodes conf [''vrf'', ''name''])"
    using True by (simp add: vrf_remove_get_config name_read_remove comp_def)
  show ?thesis unfolding a r by (auto simp: list_diff_def)
qed

theorem add_remove_disjoint_witness:
  "map name (vrf_add (get_config blue_dropped)) = [''RED'']
   \<and> map name (vrf_remove (get_config blue_dropped)) = [''BLUE'']
   \<and> set (map name (vrf_add (get_config blue_dropped)))
       \<inter> set (map name (vrf_remove (get_config blue_dropped))) = {}"
proof -
  have "map name (vrf_add (get_config blue_dropped)) = [''RED'']"
    "map name (vrf_remove (get_config blue_dropped)) = [''BLUE'']"
    by code_simp+
  then show ?thesis using add_remove_disjoint[of blue_dropped] by simp
qed

subsection \<open>The alias write\<close>

lemma write_file_ok:
  "outcome (write_file os p data k) = Inr () \<Longrightarrow>
   \<exists>d. data = Some d \<and> trace (write_file os p data k) = [OpenW p, WriteData p d]"
  by (auto simp: write_file_def trace_def outcome_def split: prod.splits option.splits)

lemma emits_no_write: "emits (\<lambda>e. \<forall>p d. e \<noteq> WriteData p d) (create_vrf os nm tbl)"
  unfolding create_vrf_def by (intro emits_and_then emits_cmd) simp_all

lemma writes_apply_add:
  "emits (\<lambda>e. \<forall>p d. e = WriteData p d \<longrightarrow> p = ''/sys/class/net/'' @ name v @ ''/ifalias'' \<and> Some d = description v)
     (apply_add os v)"
proof -
  have w: "emits (\<lambda>e. \<forall>p d. e = WriteData p d \<longrightarrow> p = ''/sys/class/net/'' @ name v @ ''/ifalias'' \<and> Some d = description v)
     (write_file os (''/sys/class/net/'' @ name v @ ''/ifalias'') (description v))"
    by (auto simp: emits_def write_file_def trace_def split: prod.splits option.splits)
  show ?thesis
    unfolding apply_add_def Let_def
    by (intro emits_and_then emits_if emits_skip w emits_weaken[OF emits_no_write]) simp
qed

lemma default_description_step:
  assumes "v \<in> set (vrf_add (get_config conf))"
    and "\<not> exists conf [''vrf'', ''name'', name v, ''description'']"
  shows "description v = Some [CHR 0x00]
    \<and> (\<forall>p d. WriteData p d \<in> set (trace (apply_add os v k)) \<longrightarrow>
          p = ''/sys/class/net/'' @ name v @ ''/ifalias'' \<and> d = [CHR 0x00])
    \<and> (outcome (apply_add os v k) = Inr () \<longrightarrow>
          (\<exists>t. trace (apply_add os v k) =
             t @ [OpenW (''/sys/class/net/'' @ name v @ ''/ifalias''),
                  WriteData (''/sys/class/net/'' @ name v @ ''/ifalias'') [CHR 0x00]]))"
proof -
  from assms(1) have v: "v = read_vrf conf (name v)" by (rule in_vrf_add)
  have "description (read_vrf conf (name v)) = Some [CHR 0x00]"
    using assms(2) by (simp add: read_vrf_def Let_def)
  with v have d: "description v = Some [CHR 0x00]" by simp
  have w: "\<forall>p d. WriteData p d \<in> set (trace (apply_add os v k)) \<longrightarrow>
          p = ''/sys/class/net/'' @ name v @ ''/ifalias'' \<and> d = [CHR 0x00]"
    using writes_apply_add[of v os] d by (auto simp: emits_def)
  have "\<exists>t. trace (apply_add os v k) =
             t @ [OpenW (''/sys/class/net/'' @ name v @ ''/ifalias''),
                  WriteData (''/sys/class/net/'' @ name v @ ''/ifalias'') [CHR 0x00]]"
    if ok: "outcome (apply_add os v k) = Inr ()"
  proof -
    let ?f = "\<lambda>k. if \<not> isdir os k (''/sys/class/net/'' @ name v)
                    then create_vrf os (name v) (fmt (table v)) k else skip k"
    let ?g = "write_file os (''/sys/class/net/'' @ name v @ ''/ifalias'') (description v)"
    have eq: "apply_add os v = and_then ?f ?g" by (simp add: apply_add_def Let_def)
    from ok have f: "outcome (?f k) = Inr ()" and g: "outcome (?g (world (?f k))) = Inr ()"
      unfolding eq outcome_and_then by simp_all
    from write_file_ok[OF g] d
    have "trace (?g (world (?f k))) = [OpenW (''/sys/class/net/'' @ name v @ ''/ifalias''),
                  WriteData (''/sys/class/net/'' @ name v @ ''/ifalias'') [CHR 0x00]]"
      by simp
    then have "trace (and_then ?f ?g k) = trace (?f k) @ [OpenW (''/sys/class/net/'' @ name v @ ''/ifalias''),
                  WriteData (''/sys/class/net/'' @ name v @ ''/ifalias'') [CHR 0x00]]"
      using f by (simp add: trace_and_then)
    then show ?thesis unfolding eq by blast
  qed
  with d w show ?thesis by blast
qed

text \<open>
  C6. For every declared VRF with no description configured, the \<^verbatim>\<open>description\<close>
  field is the string of the single character NUL; every write that \<^verbatim>\<open>apply\<close>
  makes for this VRF goes to its \<^verbatim>\<open>ifalias\<close> file and writes that string; when
  the step for this VRF completes, the write is the last thing it did; and a run of
  \<^verbatim>\<open>apply\<close> that completes has written that string to the alias of this VRF.
\<close>

theorem description_default:
  assumes "v \<in> set (vrf_add (get_config conf))"
    and "\<not> exists conf [''vrf'', ''name'', name v, ''description'']"
  shows "(description v = Some [CHR 0x00]
    \<and> (\<forall>p d. WriteData p d \<in> set (trace (apply_add os v k)) \<longrightarrow>
          p = ''/sys/class/net/'' @ name v @ ''/ifalias'' \<and> d = [CHR 0x00])
    \<and> (outcome (apply_add os v k) = Inr () \<longrightarrow>
          (\<exists>t. trace (apply_add os v k) =
             t @ [OpenW (''/sys/class/net/'' @ name v @ ''/ifalias''),
                  WriteData (''/sys/class/net/'' @ name v @ ''/ifalias'') [CHR 0x00]])))
    \<and> (outcome (apply_cfg os (get_config conf) k0) = Inr () \<longrightarrow>
          WriteData (''/sys/class/net/'' @ name v @ ''/ifalias'') [CHR 0x00]
            \<in> set (trace (apply_cfg os (get_config conf) k0)))"
proof -
  have old: "description v = Some [CHR 0x00]
    \<and> (\<forall>p d. WriteData p d \<in> set (trace (apply_add os v k)) \<longrightarrow>
          p = ''/sys/class/net/'' @ name v @ ''/ifalias'' \<and> d = [CHR 0x00])
    \<and> (outcome (apply_add os v k) = Inr () \<longrightarrow>
          (\<exists>t. trace (apply_add os v k) =
             t @ [OpenW (''/sys/class/net/'' @ name v @ ''/ifalias''),
                  WriteData (''/sys/class/net/'' @ name v @ ''/ifalias'') [CHR 0x00]]))" for k
    using default_description_step[OF assms] .
  have new: "WriteData (''/sys/class/net/'' @ name v @ ''/ifalias'') [CHR 0x00]
            \<in> set (trace (apply_cfg os (get_config conf) k0))"
    if ok: "outcome (apply_cfg os (get_config conf) k0) = Inr ()"
  proof -
    from apply_cfg_member[OF ok assms(1)] obtain k' where
      k': "outcome (apply_add os v k') = Inr ()"
      and s: "set (trace (apply_add os v k')) \<subseteq> set (trace (apply_cfg os (get_config conf) k0))"
      by blast
    from old[of k'] k' obtain t where "trace (apply_add os v k') =
             t @ [OpenW (''/sys/class/net/'' @ name v @ ''/ifalias''),
                  WriteData (''/sys/class/net/'' @ name v @ ''/ifalias'') [CHR 0x00]]"
      by blast
    then have "WriteData (''/sys/class/net/'' @ name v @ ''/ifalias'') [CHR 0x00]
        \<in> set (trace (apply_add os v k'))" by simp
    with s show ?thesis by blast
  qed
  from old[of k] new show ?thesis by blast
qed

theorem description_default_witness:
  "hd (vrf_add (get_config scenario_A)) \<in> set (vrf_add (get_config scenario_A))
   \<and> \<not> exists scenario_A [''vrf'', ''name'', ''RED'', ''description'']
   \<and> description (hd (vrf_add (get_config scenario_A))) = Some [CHR 0x00]
   \<and> (\<exists>t. trace (apply_add sim_os (hd (vrf_add (get_config scenario_A))) []) =
          t @ [OpenW ''/sys/class/net/RED/ifalias'', WriteData ''/sys/class/net/RED/ifalias'' [CHR 0x00]])
   \<and> outcome (apply_cfg sim_os (get_config scenario_A) []) = Inr ()
   \<and> WriteData ''/sys/class/net/RED/ifalias'' [CHR 0x00]
        \<in> set (trace (apply_cfg sim_os (get_config scenario_A) []))"
proof -
  have c: "vrf_add (get_config scenario_A) =
     [\<lparr>members = [], name = ''RED'', description = Some [CHR 0x00], table = Some ''100'',
       table_mod = False\<rparr>]"
    by code_simp
  have h1: "hd (vrf_add (get_config scenario_A)) \<in> set (vrf_add (get_config scenario_A))"
    by (simp add: c)
  have h2: "\<not> exists scenario_A [''vrf'', ''name'', name (hd (vrf_add (get_config scenario_A))), ''description'']"
    by code_simp
  have h3: "outcome (apply_add sim_os (hd (vrf_add (get_config scenario_A))) []) = Inr ()"
    by code_simp
  have h4: "\<not> exists scenario_A [''vrf'', ''name'', ''RED'', ''description'']"
    by code_simp
  have h5: "outcome (apply_cfg sim_os (get_config scenario_A) []) = Inr ()"
    by code_simp
  show ?thesis
    using h1 h3 h4 h5 description_default[OF h1 h2, of sim_os "[]" "[]"] by (simp add: c)
qed

text \<open>
  The default is not the empty string: in scenario A, RED has no description, its field is
  not \<^verbatim>\<open>''\<close>, and one character is written to the alias.
\<close>

theorem description_default_counterexample:
  "hd (vrf_add (get_config scenario_A)) \<in> set (vrf_add (get_config scenario_A))
   \<and> \<not> exists scenario_A [''vrf'', ''name'', name (hd (vrf_add (get_config scenario_A))), ''description'']
   \<and> description (hd (vrf_add (get_config scenario_A))) \<noteq> Some ''''
   \<and> trace (apply_add sim_os (hd (vrf_add (get_config scenario_A))) [''/sys/class/net/RED''])
       = [OpenW ''/sys/class/net/RED/ifalias'', WriteData ''/sys/class/net/RED/ifalias'' [CHR 0x00]]"
  by code_simp

subsection \<open>The order of the effects\<close>

lemma str_int_0: "str_int 0 = ''0''"
  by code_simp


lemma split_tcp0: "py_split ''sysctl -wq net.ipv4.tcp_l3mdev_accept=0'' = [''sysctl'', ''-wq'', ''net.ipv4.tcp_l3mdev_accept=0'']"
  by code_simp
lemma split_udp0: "py_split ''sysctl -wq net.ipv4.udp_l3mdev_accept=0'' = [''sysctl'', ''-wq'', ''net.ipv4.udp_l3mdev_accept=0'']"
  by code_simp

lemma outcome_cmd:
  "outcome (cmd os command k) = Inr () \<longleftrightarrow> fst (check_call os (py_split command) k) = None"
  by (auto simp: cmd_def outcome_def Let_def split: prod.splits option.splits exn.splits)

lemma trace_apply_cfg_head:
  assumes "b = str_int (bind_to_all c)"
  shows "(\<exists>t. trace (apply_cfg os c k) = Exec (py_split (''sysctl -wq net.ipv4.tcp_l3mdev_accept='' @ b)) # t)
    \<and> (fst (check_call os (py_split (''sysctl -wq net.ipv4.tcp_l3mdev_accept='' @ b)) k) = None \<longrightarrow>
        (\<exists>t. trace (apply_cfg os c k) = Exec (py_split (''sysctl -wq net.ipv4.tcp_l3mdev_accept='' @ b))
              # Exec (py_split (''sysctl -wq net.ipv4.udp_l3mdev_accept='' @ b)) # t))"
  unfolding apply_cfg_def Let_def assms
  by (simp add: trace_and_then outcome_cmd[symmetric] split: sum.splits)







lemma and_then_skip: "and_then (\<lambda>k. skip k) g k = g k"
  by (simp add: and_then_def skip_def split: prod.splits)

lemma no_exec_write_file: "Exec argv \<notin> set (trace (write_file os p data k))"
  by (auto simp: write_file_def trace_def split: prod.splits option.splits)

lemma existing_device_step:
  "isdir os k (''/sys/class/net/'' @ name v) \<Longrightarrow>
   apply_add os v k = write_file os (''/sys/class/net/'' @ name v @ ''/ifalias'') (description v) k
   \<and> (\<forall>argv. Exec argv \<notin> set (trace (apply_add os v k)))"
proof -
  assume d: "isdir os k (''/sys/class/net/'' @ name v)"
  have "apply_add os v k = write_file os (''/sys/class/net/'' @ name v @ ''/ifalias'') (description v) k"
    using d by (simp add: apply_add_def Let_def and_then_def skip_def split: prod.splits)
  then show ?thesis by (simp add: no_exec_write_file)
qed

text \<open>
  C8. For an entry of \<^verbatim>\<open>vrf_add\<close> whose device exists, the step is the write of the
  description to the alias and nothing else: no command is run. In a run of
  \<^verbatim>\<open>apply\<close> that has come to this entry (the policy commands, the removals and the
  entries before it have succeeded) and finds its device, the effects that follow are
  this write and then those of the entries after it.
\<close>

theorem apply_add_existing:
  "isdir os k (''/sys/class/net/'' @ name v) \<Longrightarrow>
   (apply_add os v k = write_file os (''/sys/class/net/'' @ name v @ ''/ifalias'') (description v) k
    \<and> (\<forall>argv. Exec argv \<notin> set (trace (apply_add os v k))))
   \<and> (vrf_add c = pre @ v # post
       \<and> outcome (apply_cfg os (c\<lparr>vrf_add := pre\<rparr>) k0) = Inr ()
       \<and> world (apply_cfg os (c\<lparr>vrf_add := pre\<rparr>) k0) = k \<longrightarrow>
       trace (apply_cfg os c k0) =
         trace (apply_cfg os (c\<lparr>vrf_add := pre\<rparr>) k0)
         @ trace (write_file os (''/sys/class/net/'' @ name v @ ''/ifalias'') (description v) k)
         @ (case outcome (write_file os (''/sys/class/net/'' @ name v @ ''/ifalias'') (description v) k) of
              Inl e \<Rightarrow> []
            | Inr u \<Rightarrow> trace (for_each (apply_add os) post
                 (world (write_file os (''/sys/class/net/'' @ name v @ ''/ifalias'') (description v) k)))))"
proof -
  assume d: "isdir os k (''/sys/class/net/'' @ name v)"
  have old: "apply_add os v k = write_file os (''/sys/class/net/'' @ name v @ ''/ifalias'') (description v) k
    \<and> (\<forall>argv. Exec argv \<notin> set (trace (apply_add os v k)))"
    using existing_device_step[OF d] .
  have new: "trace (apply_cfg os c k0) =
         trace (apply_cfg os (c\<lparr>vrf_add := pre\<rparr>) k0)
         @ trace (write_file os (''/sys/class/net/'' @ name v @ ''/ifalias'') (description v) k)
         @ (case outcome (write_file os (''/sys/class/net/'' @ name v @ ''/ifalias'') (description v) k) of
              Inl e \<Rightarrow> []
            | Inr u \<Rightarrow> trace (for_each (apply_add os) post
                 (world (write_file os (''/sys/class/net/'' @ name v @ ''/ifalias'') (description v) k))))"
    if h: "vrf_add c = pre @ v # post
       \<and> outcome (apply_cfg os (c\<lparr>vrf_add := pre\<rparr>) k0) = Inr ()
       \<and> world (apply_cfg os (c\<lparr>vrf_add := pre\<rparr>) k0) = k"
  proof -
    from h have h1: "vrf_add c = pre @ v # post"
      and h2: "outcome (apply_cfg os (c\<lparr>vrf_add := pre\<rparr>) k0) = Inr ()"
      and h3: "world (apply_cfg os (c\<lparr>vrf_add := pre\<rparr>) k0) = k"
      by simp_all
    from old have e: "apply_add os v k
        = write_file os (''/sys/class/net/'' @ name v @ ''/ifalias'') (description v) k" by simp
    from apply_cfg_reaches[OF h1 h2] show ?thesis unfolding h3 e .
  qed
  from old new show ?thesis by blast
qed

theorem apply_add_existing_witness:
  "isdir sim_os [''/sys/class/net/RED''] (''/sys/class/net/'' @ name (hd (vrf_add (get_config scenario_A))))
   \<and> apply_add sim_os (hd (vrf_add (get_config scenario_A))) [''/sys/class/net/RED'']
       = (Inr (), [''/sys/class/net/RED''],
          [OpenW ''/sys/class/net/RED/ifalias'', WriteData ''/sys/class/net/RED/ifalias'' [CHR 0x00]])
   \<and> world (apply_cfg sim_os (get_config scenario_A) []) = [''/sys/class/net/RED'']
   \<and> trace (apply_cfg sim_os (get_config scenario_A) (world (apply_cfg sim_os (get_config scenario_A) [])))
       = [Exec [''sysctl'', ''-wq'', ''net.ipv4.tcp_l3mdev_accept=0''],
          Exec [''sysctl'', ''-wq'', ''net.ipv4.udp_l3mdev_accept=0''],
          OpenW ''/sys/class/net/RED/ifalias'', WriteData ''/sys/class/net/RED/ifalias'' [CHR 0x00]]
   \<and> vrf_add (get_config scenario_A) = [] @ hd (vrf_add (get_config scenario_A)) # []
   \<and> outcome (apply_cfg sim_os ((get_config scenario_A)\<lparr>vrf_add := []\<rparr>) [''/sys/class/net/RED''])
       = Inr ()
   \<and> world (apply_cfg sim_os ((get_config scenario_A)\<lparr>vrf_add := []\<rparr>) [''/sys/class/net/RED''])
       = [''/sys/class/net/RED'']
   \<and> trace (apply_cfg sim_os (get_config scenario_A) [''/sys/class/net/RED''])
       = trace (apply_cfg sim_os ((get_config scenario_A)\<lparr>vrf_add := []\<rparr>) [''/sys/class/net/RED''])
         @ [OpenW ''/sys/class/net/RED/ifalias'', WriteData ''/sys/class/net/RED/ifalias'' [CHR 0x00]]"
proof -
  have h: "isdir sim_os [''/sys/class/net/RED''] (''/sys/class/net/'' @ name (hd (vrf_add (get_config scenario_A))))"
    by code_simp
  have w: "write_file sim_os (''/sys/class/net/'' @ name (hd (vrf_add (get_config scenario_A))) @ ''/ifalias'')
       (description (hd (vrf_add (get_config scenario_A)))) [''/sys/class/net/RED'']
     = (Inr (), [''/sys/class/net/RED''],
          [OpenW ''/sys/class/net/RED/ifalias'', WriteData ''/sys/class/net/RED/ifalias'' [CHR 0x00]])"
    by code_simp
  have r1: "world (apply_cfg sim_os (get_config scenario_A) []) = [''/sys/class/net/RED'']"
    by code_simp
  have r2: "trace (apply_cfg sim_os (get_config scenario_A) [''/sys/class/net/RED''])
       = [Exec [''sysctl'', ''-wq'', ''net.ipv4.tcp_l3mdev_accept=0''],
          Exec [''sysctl'', ''-wq'', ''net.ipv4.udp_l3mdev_accept=0''],
          OpenW ''/sys/class/net/RED/ifalias'', WriteData ''/sys/class/net/RED/ifalias'' [CHR 0x00]]"
    by code_simp
  have n1: "vrf_add (get_config scenario_A) = [] @ hd (vrf_add (get_config scenario_A)) # []"
    by code_simp
  have n2: "outcome (apply_cfg sim_os ((get_config scenario_A)\<lparr>vrf_add := []\<rparr>) [''/sys/class/net/RED''])
       = Inr ()"
    by code_simp
  have n3: "world (apply_cfg sim_os ((get_config scenario_A)\<lparr>vrf_add := []\<rparr>) [''/sys/class/net/RED''])
       = [''/sys/class/net/RED'']"
    by code_simp
  have n4: "trace (apply_cfg sim_os ((get_config scenario_A)\<lparr>vrf_add := []\<rparr>) [''/sys/class/net/RED''])
       = [Exec [''sysctl'', ''-wq'', ''net.ipv4.tcp_l3mdev_accept=0''],
          Exec [''sysctl'', ''-wq'', ''net.ipv4.udp_l3mdev_accept=0'']]"
    by code_simp
  from apply_add_existing[OF h, where c = "get_config scenario_A" and pre = "[]" and post = "[]"
      and ?k0.0 = "[''/sys/class/net/RED'']"] w
  have "apply_add sim_os (hd (vrf_add (get_config scenario_A))) [''/sys/class/net/RED'']
       = (Inr (), [''/sys/class/net/RED''],
          [OpenW ''/sys/class/net/RED/ifalias'', WriteData ''/sys/class/net/RED/ifalias'' [CHR 0x00]])"
    by simp
  with h r1 r2 n1 n2 n3 n4 show ?thesis by simp
qed

text \<open>
  C9. When the \<^verbatim>\<open>vrf\<close> node is absent, \<^verbatim>\<open>get_config\<close> returns
  \<^verbatim>\<open>bind_to_all\<close> 0, no VRF to add, and the previously effective names to remove;
  \<^verbatim>\<open>apply\<close> then starts by setting the TCP tunable to 0 and, when that call
  succeeds, sets the UDP tunable to 0.
\<close>

theorem vrf_absent:
  "\<not> exists conf [''vrf''] \<Longrightarrow>
   bind_to_all (get_config conf) = 0
   \<and> vrf_add (get_config conf) = []
   \<and> map name (vrf_remove (get_config conf)) = list_effective_nodes conf [''vrf'', ''name'']
   \<and> (\<exists>t. trace (apply_cfg os (get_config conf) k) =
          Exec [''sysctl'', ''-wq'', ''net.ipv4.tcp_l3mdev_accept=0''] # t)
   \<and> (fst (check_call os [''sysctl'', ''-wq'', ''net.ipv4.tcp_l3mdev_accept=0''] k) = None \<longrightarrow>
        (\<exists>t. trace (apply_cfg os (get_config conf) k) =
           Exec [''sysctl'', ''-wq'', ''net.ipv4.tcp_l3mdev_accept=0'']
         # Exec [''sysctl'', ''-wq'', ''net.ipv4.udp_l3mdev_accept=0''] # t))"
proof -
  assume a: "\<not> exists conf [''vrf'']"
  have b: "bind_to_all (get_config conf) = 0" using a by (simp add: bind_to_all_get_config)
  have v: "vrf_add (get_config conf) = []" using a by (simp add: vrf_add_get_config)
  have r: "map name (vrf_remove (get_config conf)) = list_effective_nodes conf [''vrf'', ''name'']"
    using a by (simp add: vrf_remove_get_config name_read_remove comp_def)
  have s: "str_int (bind_to_all (get_config conf)) = ''0''" by (simp add: b str_int_0)
  from trace_apply_cfg_head[OF s[symmetric], of os k] b v r show ?thesis
    by (simp add: split_tcp0 split_udp0)
qed

theorem vrf_absent_witness:
  "\<not> exists scenario_D [''vrf'']
   \<and> fst (check_call sim_os [''sysctl'', ''-wq'', ''net.ipv4.tcp_l3mdev_accept=0''] []) = None
   \<and> bind_to_all (get_config scenario_D) = 0
   \<and> vrf_add (get_config scenario_D) = []
   \<and> map name (vrf_remove (get_config scenario_D)) = [''BLUE'']
   \<and> (\<exists>t. trace (apply_cfg sim_os (get_config scenario_D) []) =
           Exec [''sysctl'', ''-wq'', ''net.ipv4.tcp_l3mdev_accept=0'']
         # Exec [''sysctl'', ''-wq'', ''net.ipv4.udp_l3mdev_accept=0''] # t)"
proof -
  have h: "\<not> exists scenario_D [''vrf'']" by code_simp
  have e: "list_effective_nodes scenario_D [''vrf'', ''name''] = [''BLUE'']" by code_simp
  have ok: "fst (check_call sim_os [''sysctl'', ''-wq'', ''net.ipv4.tcp_l3mdev_accept=0''] []) = None"
    by code_simp
  show ?thesis
    using h ok vrf_absent[OF h, of sim_os "[]"] by (simp add: e)
qed

lemma split_from_space: "split_from w (s @ CHR '' '' # r) = split_from w s @ split_from [] r"
  by (induction s arbitrary: w) (auto simp: py_isspace_def)

lemma split_create_no_table:
  "py_split (''ip link add '' @ nm @ '' type vrf table '')
     = [''ip'', ''link'', ''add''] @ py_split nm @ [''type'', ''vrf'', ''table'']"
proof -
  have "py_split (nm @ '' type vrf table '') = py_split nm @ [''type'', ''vrf'', ''table'']"
    using split_from_space[of "[]" nm "''type vrf table ''"]
    by (simp add: py_split_def py_isspace_def)
  with split_add[of "nm @ '' type vrf table ''"] show ?thesis by simp
qed

lemma trace_create_head:
  "\<exists>t. trace (create_vrf os nm tbl k) = Exec (py_split (''ip link add '' @ nm @ '' type vrf table '' @ tbl)) # t"
  unfolding create_vrf_def by (simp add: trace_and_then)

lemma no_table_step:
  assumes "v \<in> set (vrf_add (get_config conf))"
    and "\<not> exists conf [''vrf'', ''name'', name v, ''table'']"
  shows "table v = Some ''''
    \<and> \<not> table_mod v
    \<and> verify_add [v] = Inr ()
    \<and> verify (c\<lparr>vrf_add := v # vrf_add c\<rparr>) = verify c
    \<and> (\<not> isdir os k (''/sys/class/net/'' @ name v) \<longrightarrow>
         (\<exists>t. trace (apply_add os v k) =
            Exec ([''ip'', ''link'', ''add''] @ py_split (name v) @ [''type'', ''vrf'', ''table'']) # t))"
proof -
  from assms(1) have v: "v = read_vrf conf (name v)" by (rule in_vrf_add)
  have "table (read_vrf conf (name v)) = Some '''' \<and> \<not> table_mod (read_vrf conf (name v))"
    using assms(2) by (simp add: read_vrf_def Let_def)
  with v have t: "table v = Some ''''" and m: "\<not> table_mod v" by simp_all
  have va: "verify_add [v] = Inr ()" using m by simp
  have vc: "verify (c\<lparr>vrf_add := v # vrf_add c\<rparr>) = verify c"
    using m by (simp add: verify_def split: sum.splits)
  have "\<exists>t. trace (apply_add os v k) =
            Exec ([''ip'', ''link'', ''add''] @ py_split (name v) @ [''type'', ''vrf'', ''table'']) # t"
    if nd: "\<not> isdir os k (''/sys/class/net/'' @ name v)"
  proof -
    from trace_create_head[of os "name v" "''''" k] obtain t0 where
      t0: "trace (create_vrf os (name v) '''' k) = Exec (py_split (''ip link add '' @ name v @ '' type vrf table '')) # t0"
      by auto
    have "\<exists>t1. trace (apply_add os v k) = trace (create_vrf os (name v) '''' k) @ t1"
      using nd t by (simp add: apply_add_def Let_def trace_and_then)
    with t0 split_create_no_table[of "name v"] show ?thesis by auto
  qed
  with t m va vc show ?thesis by blast
qed

lemma create_reached:
  assumes "vrf_add c = pre @ v # post"
    and "outcome (apply_cfg os (c\<lparr>vrf_add := pre\<rparr>) k) = Inr ()"
    and "\<not> isdir os (world (apply_cfg os (c\<lparr>vrf_add := pre\<rparr>) k)) (''/sys/class/net/'' @ name v)"
  shows "\<exists>t. trace (apply_cfg os c k) = trace (apply_cfg os (c\<lparr>vrf_add := pre\<rparr>) k)
      @ Exec (py_split (''ip link add '' @ name v @ '' type vrf table '' @ fmt (table v))) # t"
proof -
  let ?k = "world (apply_cfg os (c\<lparr>vrf_add := pre\<rparr>) k)"
  from trace_create_head[of os "name v" "fmt (table v)" ?k] obtain t0 where
    t0: "trace (create_vrf os (name v) (fmt (table v)) ?k)
       = Exec (py_split (''ip link add '' @ name v @ '' type vrf table '' @ fmt (table v))) # t0"
    by blast
  have "\<exists>t1. trace (apply_add os v ?k) = trace (create_vrf os (name v) (fmt (table v)) ?k) @ t1"
    using assms(3) by (simp add: apply_add_def Let_def trace_and_then)
  then obtain t1 where t1: "trace (apply_add os v ?k)
       = Exec (py_split (''ip link add '' @ name v @ '' type vrf table '' @ fmt (table v))) # t0 @ t1"
    using t0 by auto
  from apply_cfg_reaches[OF assms(1,2)] t1 show ?thesis by simp
qed

text \<open>
  C10. A declared VRF with no \<^verbatim>\<open>table\<close> attribute has the empty string as table and
  \<^verbatim>\<open>table_mod\<close> false; validation raises nothing for it (adding it to a
  configuration leaves the verdict as it was); and when its device does not exist, the
  first thing its step does is run the creation command, whose argument vector ends with
  \<^verbatim>\<open>table\<close> and no table ID. So does \<^verbatim>\<open>apply\<close> as a whole, and the main
  program when validation passes: once the policy commands, the removals and the entries
  before this one have succeeded and the device is not there, the next effect is that
  creation command.
\<close>

theorem vrf_without_table:
  assumes "v \<in> set (vrf_add (get_config conf))"
    and "\<not> exists conf [''vrf'', ''name'', name v, ''table'']"
  shows "(table v = Some ''''
    \<and> \<not> table_mod v
    \<and> verify_add [v] = Inr ()
    \<and> verify (c\<lparr>vrf_add := v # vrf_add c\<rparr>) = verify c
    \<and> (\<not> isdir os k (''/sys/class/net/'' @ name v) \<longrightarrow>
         (\<exists>t. trace (apply_add os v k) =
            Exec ([''ip'', ''link'', ''add''] @ py_split (name v) @ [''type'', ''vrf'', ''table'']) # t)))
    \<and> (vrf_add (get_config conf) = pre @ v # post
        \<and> outcome (apply_cfg os ((get_config conf)\<lparr>vrf_add := pre\<rparr>) k0) = Inr ()
        \<and> \<not> isdir os (world (apply_cfg os ((get_config conf)\<lparr>vrf_add := pre\<rparr>) k0))
              (''/sys/class/net/'' @ name v) \<longrightarrow>
         (\<exists>t. trace (apply_cfg os (get_config conf) k0) =
            trace (apply_cfg os ((get_config conf)\<lparr>vrf_add := pre\<rparr>) k0)
            @ Exec ([''ip'', ''link'', ''add''] @ py_split (name v) @ [''type'', ''vrf'', ''table'']) # t)
         \<and> (verify (get_config conf) = Inr () \<longrightarrow>
             (\<exists>t. snd (snd (main conf os k0)) =
                trace (apply_cfg os ((get_config conf)\<lparr>vrf_add := pre\<rparr>) k0)
                @ Exec ([''ip'', ''link'', ''add''] @ py_split (name v) @ [''type'', ''vrf'', ''table'']) # t)))"
proof -
  have old: "table v = Some ''''
    \<and> \<not> table_mod v
    \<and> verify_add [v] = Inr ()
    \<and> verify (c\<lparr>vrf_add := v # vrf_add c\<rparr>) = verify c
    \<and> (\<not> isdir os k (''/sys/class/net/'' @ name v) \<longrightarrow>
         (\<exists>t. trace (apply_add os v k) =
            Exec ([''ip'', ''link'', ''add''] @ py_split (name v) @ [''type'', ''vrf'', ''table'']) # t))"
    using no_table_step[OF assms] .
  then have t: "fmt (table v) = ''''" by simp
  have new: "(\<exists>t. trace (apply_cfg os (get_config conf) k0) =
            trace (apply_cfg os ((get_config conf)\<lparr>vrf_add := pre\<rparr>) k0)
            @ Exec ([''ip'', ''link'', ''add''] @ py_split (name v) @ [''type'', ''vrf'', ''table'']) # t)
         \<and> (verify (get_config conf) = Inr () \<longrightarrow>
             (\<exists>t. snd (snd (main conf os k0)) =
                trace (apply_cfg os ((get_config conf)\<lparr>vrf_add := pre\<rparr>) k0)
                @ Exec ([''ip'', ''link'', ''add''] @ py_split (name v) @ [''type'', ''vrf'', ''table'']) # t))"
    if h: "vrf_add (get_config conf) = pre @ v # post
        \<and> outcome (apply_cfg os ((get_config conf)\<lparr>vrf_add := pre\<rparr>) k0) = Inr ()
        \<and> \<not> isdir os (world (apply_cfg os ((get_config conf)\<lparr>vrf_add := pre\<rparr>) k0))
              (''/sys/class/net/'' @ name v)"
  proof -
    from h have h1: "vrf_add (get_config conf) = pre @ v # post"
      and h2: "outcome (apply_cfg os ((get_config conf)\<lparr>vrf_add := pre\<rparr>) k0) = Inr ()"
      and h3: "\<not> isdir os (world (apply_cfg os ((get_config conf)\<lparr>vrf_add := pre\<rparr>) k0))
              (''/sys/class/net/'' @ name v)"
      by simp_all
    from create_reached[OF h1 h2 h3] t split_create_no_table[of "name v"]
    have a: "\<exists>t. trace (apply_cfg os (get_config conf) k0) =
            trace (apply_cfg os ((get_config conf)\<lparr>vrf_add := pre\<rparr>) k0)
            @ Exec ([''ip'', ''link'', ''add''] @ py_split (name v) @ [''type'', ''vrf'', ''table'']) # t"
      by simp
    with main_runs_apply[of conf os k0] show ?thesis by simp
  qed
  from old new show ?thesis by blast
qed

theorem vrf_without_table_witness:
  "hd (vrf_add (get_config table_dropped)) \<in> set (vrf_add (get_config table_dropped))
   \<and> \<not> exists table_dropped [''vrf'', ''name'', ''RED'', ''table'']
   \<and> \<not> isdir sim_os [] ''/sys/class/net/RED''
   \<and> table (hd (vrf_add (get_config table_dropped))) = Some ''''
   \<and> \<not> table_mod (hd (vrf_add (get_config table_dropped)))
   \<and> verify (get_config table_dropped) = Inr ()
   \<and> (\<exists>t. trace (apply_add sim_os (hd (vrf_add (get_config table_dropped))) []) =
            Exec [''ip'', ''link'', ''add'', ''RED'', ''type'', ''vrf'', ''table''] # t)
   \<and> vrf_add (get_config table_dropped) = [] @ hd (vrf_add (get_config table_dropped)) # []
   \<and> apply_cfg sim_os ((get_config table_dropped)\<lparr>vrf_add := []\<rparr>) []
       = (Inr (), [], [Exec [''sysctl'', ''-wq'', ''net.ipv4.tcp_l3mdev_accept=0''],
                       Exec [''sysctl'', ''-wq'', ''net.ipv4.udp_l3mdev_accept=0'']])
   \<and> (\<exists>t. trace (apply_cfg sim_os (get_config table_dropped) []) =
         [Exec [''sysctl'', ''-wq'', ''net.ipv4.tcp_l3mdev_accept=0''],
          Exec [''sysctl'', ''-wq'', ''net.ipv4.udp_l3mdev_accept=0''],
          Exec [''ip'', ''link'', ''add'', ''RED'', ''type'', ''vrf'', ''table'']] @ t)
   \<and> (\<exists>t. snd (snd (main table_dropped sim_os [])) =
         [Exec [''sysctl'', ''-wq'', ''net.ipv4.tcp_l3mdev_accept=0''],
          Exec [''sysctl'', ''-wq'', ''net.ipv4.udp_l3mdev_accept=0''],
          Exec [''ip'', ''link'', ''add'', ''RED'', ''type'', ''vrf'', ''table'']] @ t)"
proof -
  have c: "get_config table_dropped = \<lparr>bind_to_all = 0, deleted = False,
     vrf_add = [\<lparr>members = [], name = ''RED'', description = Some [CHR 0x00], table = Some '''',
       table_mod = False\<rparr>], vrf_existing = [], vrf_remove = []\<rparr>"
    by code_simp
  have h1: "hd (vrf_add (get_config table_dropped)) \<in> set (vrf_add (get_config table_dropped))"
    by (simp add: c)
  have h2: "\<not> exists table_dropped [''vrf'', ''name'', name (hd (vrf_add (get_config table_dropped))), ''table'']"
    by code_simp
  have h3: "\<not> isdir sim_os [] ''/sys/class/net/RED''" by code_simp
  have h4: "\<not> exists table_dropped [''vrf'', ''name'', ''RED'', ''table'']" by code_simp
  have s: "py_split ''RED'' = [''RED'']" by code_simp
  have vf: "verify (get_config table_dropped) = Inr ()" by code_simp
  have p: "apply_cfg sim_os ((get_config table_dropped)\<lparr>vrf_add := []\<rparr>) []
       = (Inr (), [], [Exec [''sysctl'', ''-wq'', ''net.ipv4.tcp_l3mdev_accept=0''],
                       Exec [''sysctl'', ''-wq'', ''net.ipv4.udp_l3mdev_accept=0'']])"
    by code_simp
  show ?thesis
    using h1 h3 h4 vf p
      vrf_without_table[OF h1 h2, of "get_config table_dropped" sim_os "[]" "[]" "[]" "[]"]
    by (simp add: c s outcome_def world_def trace_def)
qed

end
